theory Spec2Isabelle
  imports Main "HOL-Library.AList"
begin

section \<open>JavaScript values\<close>

text \<open>
  The values the comm handler moves around are JSON-like trees: request payloads
  (\<open>data: Record<string, any>\<close>), the engine's result body (\<open>any\<close>), function
  configurations, and the own enumerable properties of thrown errors. An object is an
  association list in the order its properties are enumerated; its keys are distinct.
  Numbers are integers of magnitude below \<open>10^21\<close>, which JavaScript prints with all
  their digits (fractions, and the exponent form of larger numbers, are not modelled).
  Every value of this type has a JSON form or is \<open>undefined\<close>.
\<close>

datatype json =
    JUndefined
  | JNull
  | JBool bool
  | JNum int
  | JStr string
  | JArr "json list"
  | JObj "(string \<times> json) list"

text \<open>
  An \<open>Error\<close> instance: \<open>name\<close>, \<open>message\<close> and \<open>stack\<close> are not enumerable;
  \<open>err_props\<close> are its own enumerable properties (what \<open>JSON.stringify\<close> and object
  spread see).
\<close>

record js_error =
  err_name :: string
  err_message :: string
  err_stack :: "string option"
  err_props :: "(string \<times> json) list"

text \<open>Anything can be thrown: \<open>err instanceof Error\<close> is the constructor test.\<close>

datatype js_value = Plain json | ErrorInst js_error

type_synonym thrown = js_value

text \<open>Property read \<open>o[k]\<close> on an object: a missing key reads as \<open>undefined\<close>.\<close>

definition obj_get :: "(string \<times> json) list \<Rightarrow> string \<Rightarrow> json" where
  "obj_get kvs k = (case map_of kvs k of None \<Rightarrow> JUndefined | Some v \<Rightarrow> v)"

text \<open>String truthiness: \<open>undefined\<close> and the empty string are falsy.\<close>

fun truthy_str :: "string option \<Rightarrow> bool" where
  "truthy_str None = False"
| "truthy_str (Some s) = (s \<noteq> [])"

subsection \<open>\<open>JSON.stringify\<close>\<close>

definition hex_digit :: "nat \<Rightarrow> char" where
  "hex_digit n = (''0123456789abcdef'') ! (n mod 16)"

text \<open>\<open>QuoteJSONString\<close>: the two-character escapes, and the six-character hexadecimal escape for the other control characters.\<close>

definition quote_char :: "char \<Rightarrow> string" where
  "quote_char c =
     (if c = CHR 0x22 then [CHR 0x5C, CHR 0x22]
      else if c = CHR 0x5C then [CHR 0x5C, CHR 0x5C]
      else if c = CHR 0x08 then [CHR 0x5C, CHR ''b'']
      else if c = CHR 0x09 then [CHR 0x5C, CHR ''t'']
      else if c = CHR 0x0A then [CHR 0x5C, CHR ''n'']
      else if c = CHR 0x0C then [CHR 0x5C, CHR ''f'']
      else if c = CHR 0x0D then [CHR 0x5C, CHR ''r'']
      else if of_char c < (32::nat)
        then [CHR 0x5C, CHR ''u'', CHR ''0'', CHR ''0'',
              hex_digit (of_char c div 16), hex_digit (of_char c)]
      else [c])"

definition quote_json :: "string \<Rightarrow> string" where
  "quote_json s = [CHR 0x22] @ concat (map quote_char s) @ [CHR 0x22]"

fun digits_of :: "nat \<Rightarrow> string" where
  "digits_of n =
     (if n < 10 then [''0123456789'' ! n]
      else digits_of (n div 10) @ [''0123456789'' ! (n mod 10)])"

definition show_int :: "int \<Rightarrow> string" where
  "show_int i = (if i < 0 then ''-'' @ digits_of (nat (- i)) else digits_of (nat i))"

fun join_with :: "string \<Rightarrow> string list \<Rightarrow> string" where
  "join_with sep [] = []"
| "join_with sep [x] = x"
| "join_with sep (x # y # ys) = x @ sep @ join_with sep (y # ys)"

text \<open>
  \<open>JSON.stringify(v)\<close>: \<open>None\<close> is the result \<open>undefined\<close>. Inside an array
  \<open>undefined\<close> prints as \<open>null\<close>; inside an object the property is left out.
\<close>

fun JSON_stringify :: "json \<Rightarrow> string option" where
  "JSON_stringify JUndefined = None"
| "JSON_stringify JNull = Some ''null''"
| "JSON_stringify (JBool b) = Some (if b then ''true'' else ''false'')"
| "JSON_stringify (JNum i) = Some (show_int i)"
| "JSON_stringify (JStr s) = Some (quote_json s)"
| "JSON_stringify (JArr xs) =
     Some (''['' @ join_with '',''
        (map (\<lambda>x. case JSON_stringify x of None \<Rightarrow> ''null'' | Some s \<Rightarrow> s) xs) @ '']'')"
| "JSON_stringify (JObj kvs) =
     Some (''{'' @ join_with '',''
        (concat (map (\<lambda>p. case JSON_stringify (snd p) of
                              None \<Rightarrow> []
                            | Some s \<Rightarrow> [quote_json (fst p) @ '':'' @ s]) kvs)) @ ''}'')"

text \<open>
  \<open>JSON.stringify\<close> of a thrown value. An \<open>Error\<close> instance prints as the object of its
  own enumerable properties (a bare \<open>new Error(m)\<close> prints as \<open>{}\<close>).
\<close>

fun JSON_stringify_value :: "js_value \<Rightarrow> string option" where
  "JSON_stringify_value (Plain v) = JSON_stringify v"
| "JSON_stringify_value (ErrorInst e) = JSON_stringify (JObj (err_props e))"

section \<open>Error transport (helpers/errors.ts)\<close>

definition SERIALIZED_KEY :: string where
  "SERIALIZED_KEY = ''__serialized''"

definition SERIALIZED_VALUE :: json where
  "SERIALIZED_VALUE = JBool True"

text \<open>
  \<open>isSerializedError\<close>: \<open>hasOwnProperty.call(value, KEY) && value[KEY] === true\<close>
  inside a \<open>try\<close>. On \<open>undefined\<close> and \<open>null\<close> the call throws and the \<open>catch\<close> answers
  \<open>false\<close>; primitives and arrays have no such own property.
\<close>

fun isSerializedError :: "js_value \<Rightarrow> bool" where
  "isSerializedError (Plain (JObj kvs)) =
     (map_of kvs SERIALIZED_KEY \<noteq> None \<and> obj_get kvs SERIALIZED_KEY = SERIALIZED_VALUE)"
| "isSerializedError (ErrorInst e) =
     (map_of (err_props e) SERIALIZED_KEY \<noteq> None
      \<and> obj_get (err_props e) SERIALIZED_KEY = SERIALIZED_VALUE)"
| "isSerializedError (Plain _) = False"

text \<open>
  \<open>serializeError\<close>. The package function \<open>cjsSerializeError\<close> is a parameter: it
  returns a plain object or throws. The spread \<open>{...o, [KEY]: VALUE}\<close> keeps the
  properties of \<open>o\<close> in order and writes the marker, in place when \<open>o\<close> has the key and
  at the end otherwise.
\<close>

definition serializeError ::
  "(js_value \<Rightarrow> thrown + (string \<times> json) list) \<Rightarrow> js_value \<Rightarrow> thrown + js_value" where
  "serializeError cjsSerializeError subject =
     (if isSerializedError subject then Inr subject
      else (case cjsSerializeError subject of
              Inl err \<Rightarrow> Inl err
            | Inr obj \<Rightarrow>
                Inr (Plain (JObj (AList.update SERIALIZED_KEY SERIALIZED_VALUE obj)))))"

section \<open>Collaborators outside the source tree\<close>

text \<open>
  The handler imports constants and helpers from modules that are not part of the
  verified sources (\<open>helpers/consts\<close>, \<open>helpers/devserver\<close>, \<open>helpers/scalar\<close>,
  \<open>landing\<close>, \<open>version\<close>, \<open>InngestFunction\<close>) and uses the platform (\<open>URL\<close>, \<open>fetch\<close>,
  \<open>zod\<close>, \<open>hash.js\<close>, stack capture, the \<open>TypeError\<close> that \<open>JSON.stringify\<close> raises on
  a value it rejects). They are parameters: every theorem holds for all
  of them. A call that can throw returns a sum, \<open>Inl\<close> the thrown value. \<open>'fn\<close> is
  \<open>InngestFunction\<close>, \<open>'url\<close> the platform's \<open>URL\<close>.
\<close>

record fetch_init =
  fetch_method :: string
  fetch_body :: "string option"
  fetch_headers :: "(string \<times> string) list"
  redirect :: string

record fetch_response =
  res_status :: int
  res_statusText :: string
  res_json :: "thrown + json"

record ('fn, 'url) externals =
  version :: string
  landing :: string
  envKeys_SigningKey :: string
  envKeys_LandingPage :: string
  envKeys_DevServerUrl :: string
  queryKeys_Introspect :: string
  strBoolean :: "string option \<Rightarrow> bool option"
  devServerUrl :: "string option \<Rightarrow> string \<Rightarrow> thrown + 'url"
  devServerAvailable :: "string option \<Rightarrow> thrown + bool"
  fetch :: "string \<Rightarrow> fetch_init \<Rightarrow> thrown + fetch_response"
  sha256_hex :: "string \<Rightarrow> string"
  sha256_hex_of_hex :: "string \<Rightarrow> string"
  fn_id :: "'fn \<Rightarrow> string \<Rightarrow> string"
  getConfig :: "'fn \<Rightarrow> 'url \<Rightarrow> string \<Rightarrow> json"
  runFn :: "'fn \<Rightarrow> json \<Rightarrow> json \<Rightarrow> thrown + (bool \<times> json)"
  url_new :: "string \<Rightarrow> string option \<Rightarrow> thrown + 'url"
  url_href :: "'url \<Rightarrow> string"
  url_pathname :: "'url \<Rightarrow> string"
  url_search :: "'url \<Rightarrow> string"
  url_set_pathname :: "'url \<Rightarrow> string \<Rightarrow> 'url"
  url_delete_param :: "'url \<Rightarrow> string \<Rightarrow> 'url"
  error_stack :: "string \<Rightarrow> string option"
  zodError :: "json \<Rightarrow> js_error"
  notCallable :: "string \<Rightarrow> js_error"
  stringifyError :: js_error

text \<open>\<open>new Error(msg)\<close>: the platform captures the stack.\<close>

definition new_Error :: "('fn, 'url) externals \<Rightarrow> string \<Rightarrow> js_error" where
  "new_Error c msg =
     \<lparr>err_name = ''Error'', err_message = msg, err_stack = error_stack c msg, err_props = []\<rparr>"

section \<open>Actions and responses\<close>

text \<open>
  \<open>HandlerAction\<close>: every variant carries \<open>env\<close>, \<open>url\<close> and \<open>isProduction\<close>. An
  environment \<open>Record<string, string | undefined>\<close> is a partial map.
\<close>

record 'url req_ctx =
  env :: "string \<rightharpoonup> string"
  url :: 'url
  isProduction :: bool

record 'url run_action = "'url req_ctx" +
  fnId :: string
  data :: json

record 'url view_action = "'url req_ctx" +
  isIntrospection :: bool


text \<open>
  The \<open>Handler\<close> type has a callback for each tag of
  \<open>Extract<HandlerAction, {action: "run" | "register" | "view"}>\<close>: these three variants
  are the actions that can be handed to the dispatcher. The variants \<open>error\<close> and
  \<open>bad-method\<close> of \<open>HandlerAction\<close> have no callback; the fields of the \<open>error\<close>
  variant are the record \<open>error_action\<close>.
\<close>

datatype 'url ServedAction =
    ActionView "'url view_action"
  | ActionRegister "'url req_ctx"
  | ActionRun "'url run_action"

text \<open>
  What a callback throws is made by the adapter and its platform: an \<open>Error\<close>, a JSON
  value, or a value that \<open>JSON.stringify\<close> rejects (a cyclic object, a BigInt), of which
  nothing else is recorded.
\<close>

datatype callback_throw = Throw js_value | ThrowUnserialisable

text \<open>
  What a \<open>Handler\<close> returns: one callback for each of \<open>run\<close>, \<open>register\<close> and \<open>view\<close>.
  A callback yields the fields of its own variant, or \<open>undefined\<close>, or throws; each
  field below is that outcome.
\<close>

record 'url actions =
  run :: "callback_throw + 'url run_action option"
  view :: "callback_throw + 'url view_action option"
  register :: "callback_throw + 'url req_ctx option"

text \<open>
  The record for one served action: the callback of its tag returns the action's fields
  and the other two return \<open>undefined\<close>.
\<close>

fun actions_of :: "'url ServedAction \<Rightarrow> 'url actions" where
  "actions_of (ActionRun r) = \<lparr>run = Inr (Some r), view = Inr None, register = Inr None\<rparr>"
| "actions_of (ActionView v) = \<lparr>run = Inr None, view = Inr (Some v), register = Inr None\<rparr>"
| "actions_of (ActionRegister g) = \<lparr>run = Inr None, view = Inr None, register = Inr (Some g)\<rparr>"


text \<open>
  \<open>ActionResponse\<close>. The field \<open>body\<close> is declared \<open>string\<close>; at run time it holds what
  \<open>JSON.stringify\<close> returned, which is \<open>undefined\<close> (\<open>None\<close>) for an \<open>undefined\<close> argument.
\<close>

record ActionResponse =
  status :: int
  headers :: "(string \<times> string) list"
  body :: "string option"

text \<open>\<open>StepRunResponse\<close>: \<open>{status: 500, error}\<close> or \<open>{status: 200 | 206, body}\<close>.\<close>

record StepRunResponse =
  step_status :: int
  step_body :: json
  step_error :: "string option"

section \<open>The comm handler (components/InngestCommHandler.ts)\<close>

record ('fn, 'url) InngestCommHandler =
  name :: string
  frameworkName :: string
  signingKey :: "string option"
  isProd :: bool
  showLandingPage :: "bool option"
  serveHost :: "string option"
  servePath :: "string option"
  fns :: "(string \<times> 'fn) list"
  inngestRegisterUrl :: 'url

record RegisterOptions =
  opt_inngestRegisterUrl :: "string option"
  opt_landingPage :: "bool option"
  opt_signingKey :: "string option"
  opt_serveHost :: "string option"
  opt_servePath :: "string option"

text \<open>
  \<open>this.fns\<close> is a plain object, so a property read also finds what \<open>Object.prototype\<close>
  provides: such a key reads as a truthy value that is no function of the handler.
\<close>

definition Object_prototype_keys :: "string list" where
  "Object_prototype_keys =
     [''constructor'', ''__defineGetter__'', ''__defineSetter__'', ''hasOwnProperty'',
      ''__lookupGetter__'', ''__lookupSetter__'', ''isPrototypeOf'', ''propertyIsEnumerable'',
      ''toString'', ''valueOf'', ''__proto__'', ''toLocaleString'']"

datatype 'fn prop_read = Own 'fn | Inherited | Missing

definition fns_read :: "(string \<times> 'fn) list \<Rightarrow> string \<Rightarrow> 'fn prop_read" where
  "fns_read fs k =
     (case map_of fs k of
        Some fn \<Rightarrow> Own fn
      | None \<Rightarrow> if k \<in> set Object_prototype_keys then Inherited else Missing)"

text \<open>The \<open>reduce\<close> of the constructor: a key that already reads truthy is a duplicate.\<close>

fun collect_fns ::
  "('fn, 'url) externals \<Rightarrow> string \<Rightarrow> (string \<times> 'fn) list \<Rightarrow> 'fn list
     \<Rightarrow> thrown + (string \<times> 'fn) list" where
  "collect_fns c nm acc [] = Inr acc"
| "collect_fns c nm acc (fn # rest) =
     (let id = fn_id c fn nm in
      case fns_read acc id of
        Missing \<Rightarrow> collect_fns c nm (acc @ [(id, fn)]) rest
      | _ \<Rightarrow> Inl (ErrorInst (new_Error c
                 (''Duplicate function ID '' @ [CHR 0x22] @ id @ [CHR 0x22] @
                  ''; please change a function's name or provide an explicit ID to avoid conflicts.''))))"

definition new_InngestCommHandler ::
  "('fn, 'url) externals \<Rightarrow> string \<Rightarrow> string \<Rightarrow> 'fn list \<Rightarrow> RegisterOptions
     \<Rightarrow> thrown + ('fn, 'url) InngestCommHandler" where
  "new_InngestCommHandler c frameworkName' appName functions opts =
     (case collect_fns c appName [] functions of
        Inl err \<Rightarrow> Inl err
      | Inr fs \<Rightarrow>
          (case url_new c (case opt_inngestRegisterUrl opts of
                             None \<Rightarrow> ''https://api.inngest.com/fn/register''
                           | Some u \<Rightarrow> if u = [] then ''https://api.inngest.com/fn/register''
                                       else u) None of
             Inl err \<Rightarrow> Inl err
           | Inr u \<Rightarrow>
               Inr \<lparr>name = appName, frameworkName = frameworkName',
                    signingKey = opt_signingKey opts, isProd = False,
                    showLandingPage = opt_landingPage opts,
                    serveHost = opt_serveHost opts, servePath = opt_servePath opts,
                    fns = fs, inngestRegisterUrl = u\<rparr>))"

text \<open>\<open>this.headers\<close>, fixed by the constructor.\<close>

definition handler_headers ::
  "('fn, 'url) externals \<Rightarrow> ('fn, 'url) InngestCommHandler \<Rightarrow> (string \<times> string) list" where
  "handler_headers c h =
     [(''Content-Type'', ''application/json''),
      (''User-Agent'', ''inngest-js:v'' @ version c @ '' ('' @ frameworkName h @ '')'')]"

definition signkey_prefix :: "string \<Rightarrow> string" where
  "signkey_prefix k =
     (if take 13 k = ''signkey-test-'' then ''signkey-test-''
      else if take 13 k = ''signkey-prod-'' then ''signkey-prod-''
      else [])"

definition hashedSigningKey ::
  "('fn, 'url) externals \<Rightarrow> ('fn, 'url) InngestCommHandler \<Rightarrow> string" where
  "hashedSigningKey c h =
     (case signingKey h of
        None \<Rightarrow> []
      | Some k \<Rightarrow>
          if k = [] then []
          else (let prefix = signkey_prefix k; key = drop (length prefix) k
                in prefix @ sha256_hex_of_hex c key))"

definition sdkHeader ::
  "('fn, 'url) externals \<Rightarrow> ('fn, 'url) InngestCommHandler \<Rightarrow> string list" where
  "sdkHeader c h = [''inngest-'', ''js:v'' @ version c, '' ('' @ frameworkName h @ '')'']"

definition upsertSigningKeyFromEnv ::
  "('fn, 'url) externals \<Rightarrow> ('fn, 'url) InngestCommHandler \<Rightarrow> (string \<rightharpoonup> string)
     \<Rightarrow> ('fn, 'url) InngestCommHandler" where
  "upsertSigningKeyFromEnv c h e =
     (if \<not> truthy_str (signingKey h) \<and> truthy_str (e (envKeys_SigningKey c))
      then h\<lparr>signingKey := e (envKeys_SigningKey c)\<rparr>
      else h)"

definition shouldShowLandingPage ::
  "('fn, 'url) externals \<Rightarrow> ('fn, 'url) InngestCommHandler \<Rightarrow> string option \<Rightarrow> bool" where
  "shouldShowLandingPage c h strEnvVar =
     (case showLandingPage h of
        Some b \<Rightarrow> b
      | None \<Rightarrow> (case strBoolean c strEnvVar of Some b \<Rightarrow> b | None \<Rightarrow> True))"

subsection \<open>The step invoker\<close>

text \<open>
  The \<open>zod\<close> schema of \<open>runStep\<close>: the payload is an object, \<open>event\<close> is an object kept
  with all its keys, \<open>steps\<close> is an object, \<open>null\<close> or absent. \<open>parse\<close> throws a
  \<open>ZodError\<close> otherwise.
\<close>

definition parse_run_payload ::
  "('fn, 'url) externals \<Rightarrow> json \<Rightarrow> thrown + (json \<times> json)" where
  "parse_run_payload c d =
     (case d of
        JObj kvs \<Rightarrow>
          (case obj_get kvs ''event'' of
             JObj ev \<Rightarrow>
               (case obj_get kvs ''steps'' of
                  JUndefined \<Rightarrow> Inr (JObj ev, JUndefined)
                | JNull \<Rightarrow> Inr (JObj ev, JNull)
                | JObj st \<Rightarrow> Inr (JObj ev, JObj st)
                | _ \<Rightarrow> Inl (ErrorInst (zodError c d)))
           | _ \<Rightarrow> Inl (ErrorInst (zodError c d)))
      | _ \<Rightarrow> Inl (ErrorInst (zodError c d)))"

text \<open>\<open>steps || {}\<close>: of the values the schema lets through only an object is truthy.\<close>

fun steps_or_empty :: "json \<Rightarrow> json" where
  "steps_or_empty (JObj st) = JObj st"
| "steps_or_empty _ = JObj []"

text \<open>\<open>err.stack || err.message\<close>\<close>

definition stack_or_message :: "js_error \<Rightarrow> string" where
  "stack_or_message e = (if truthy_str (err_stack e) then the (err_stack e) else err_message e)"

text \<open>
  The body of the \<open>try\<close> of \<open>runStep\<close>; \<open>Inl\<close> is what reaches the \<open>catch\<close>. What the
  engine throws is an \<open>Error\<close> or a JSON value, and its result body is a JSON value or
  \<open>undefined\<close>. (On a value that \<open>JSON.stringify\<close> rejects, the \<open>catch\<close> of \<open>runStep\<close>
  and the run branch of the dispatcher would throw a \<open>TypeError\<close> into the dispatcher's
  \<open>catch\<close> block, which serialises it; the engine does not produce such values here.)
\<close>

definition runStep_try ::
  "('fn, 'url) externals \<Rightarrow> ('fn, 'url) InngestCommHandler \<Rightarrow> string \<Rightarrow> string \<Rightarrow> json
     \<Rightarrow> thrown + StepRunResponse" where
  "runStep_try c h functionId stepId d =
     (case fns_read (fns h) functionId of
        Missing \<Rightarrow>
          Inl (ErrorInst (new_Error c
            (''Could not find function with ID '' @ [CHR 0x22] @ functionId @ [CHR 0x22])))
      | Inherited \<Rightarrow>
          (case parse_run_payload c d of
             Inl err \<Rightarrow> Inl err
           | Inr _ \<Rightarrow> Inl (ErrorInst (notCallable c functionId)))
      | Own fn \<Rightarrow>
          (case parse_run_payload c d of
             Inl err \<Rightarrow> Inl err
           | Inr (event, steps) \<Rightarrow>
               (case runFn c fn (JObj [(''event'', event)]) (steps_or_empty steps) of
                  Inl err \<Rightarrow> Inl err
                | Inr (isOp, b) \<Rightarrow>
                    if isOp
                    then Inr \<lparr>step_status = 206, step_body = b, step_error = None\<rparr>
                    else Inr \<lparr>step_status = 200, step_body = b, step_error = None\<rparr>)))"

definition runStep ::
  "('fn, 'url) externals \<Rightarrow> ('fn, 'url) InngestCommHandler \<Rightarrow> string \<Rightarrow> string \<Rightarrow> json
     \<Rightarrow> StepRunResponse" where
  "runStep c h functionId stepId d =
     (case runStep_try c h functionId stepId d of
        Inr res \<Rightarrow> res
      | Inl (ErrorInst e) \<Rightarrow>
          \<lparr>step_status = 500, step_body = JUndefined, step_error = Some (stack_or_message e)\<rparr>
      | Inl (Plain v) \<Rightarrow>
          \<lparr>step_status = 500, step_body = JUndefined,
           step_error = Some (''Unknown error: '' @
             (case JSON_stringify v of None \<Rightarrow> ''undefined'' | Some s \<Rightarrow> s))\<rparr>)"

subsection \<open>Registration\<close>

text \<open>
  \<open>Object.values\<close> lists the properties an object owns in the order of
  \<open>OrdinaryOwnPropertyKeys\<close>: first the keys that are array indices (canonical decimal
  numerals below \<open>2^32 - 1\<close>), ascending, then the other keys in the order they were
  created.
\<close>

definition is_digit :: "char \<Rightarrow> bool" where
  "is_digit ch = (ch \<in> set ''0123456789'')"

fun index_value :: "nat \<Rightarrow> string \<Rightarrow> nat" where
  "index_value acc [] = acc"
| "index_value acc (ch # rest) = index_value (10 * acc + (of_char ch - 48)) rest"

definition is_array_index :: "string \<Rightarrow> bool" where
  "is_array_index k =
     (k \<noteq> [] \<and> list_all is_digit k \<and> (k = ''0'' \<or> hd k \<noteq> CHR ''0'')
      \<and> index_value 0 k < 2 ^ 32 - 1)"

definition Object_values :: "(string \<times> 'a) list \<Rightarrow> 'a list" where
  "Object_values kvs =
     map snd (sort_key (\<lambda>p. index_value 0 (fst p)) (filter (\<lambda>p. is_array_index (fst p)) kvs)
              @ filter (\<lambda>p. \<not> is_array_index (fst p)) kvs)"

text \<open>\<open>Object.values(this.fns).map((fn) => fn["getConfig"](url, this.name))\<close>\<close>

definition configs ::
  "('fn, 'url) externals \<Rightarrow> ('fn, 'url) InngestCommHandler \<Rightarrow> 'url \<Rightarrow> json list" where
  "configs c h u = map (\<lambda>fn. getConfig c fn u (name h)) (Object_values (fns h))"

definition reqUrl ::
  "('fn, 'url) externals \<Rightarrow> ('fn, 'url) InngestCommHandler \<Rightarrow> 'url \<Rightarrow> thrown + 'url" where
  "reqUrl c h u =
     (let ret = (if truthy_str (servePath h) then url_set_pathname c u (the (servePath h))
                 else u)
      in case (if truthy_str (serveHost h)
               then url_new c (url_pathname c ret @ url_search c ret) (serveHost h)
               else Inr ret) of
           Inl err \<Rightarrow> Inl err
         | Inr ret' \<Rightarrow> Inr (url_delete_param c ret' (queryKeys_Introspect c)))"

text \<open>
  \<open>registerBody\<close>: the seven fields in the order of the object literal, then \<open>hash\<close>,
  the digest of \<open>JSON.stringify\<close> of those seven (an object always serialises to a
  string).
\<close>

definition registerBody ::
  "('fn, 'url) externals \<Rightarrow> ('fn, 'url) InngestCommHandler \<Rightarrow> 'url
     \<Rightarrow> (string \<times> json) list" where
  "registerBody c h u =
     (let body = [(''url'', JStr (url_href c u)),
                  (''deployType'', JStr ''ping''),
                  (''framework'', JStr (frameworkName h)),
                  (''appName'', JStr (name h)),
                  (''functions'', JArr (configs c h u)),
                  (''sdk'', JStr (sdkHeader c h ! 1)),
                  (''v'', JStr ''0.1'')]
      in AList.update ''hash'' (JStr (sha256_hex c (the (JSON_stringify (JObj body))))) body)"

text \<open>
  \<open>registerResSchema\<close>: \<open>status\<close> a number (default 200), \<open>skipped\<close> a boolean (default
  false), \<open>error\<close> a string (default the success message).
\<close>

definition registerResSchema_parse ::
  "('fn, 'url) externals \<Rightarrow> json \<Rightarrow> thrown + (int \<times> string \<times> bool)" where
  "registerResSchema_parse c d =
     (case d of
        JObj kvs \<Rightarrow>
          (case (case obj_get kvs ''status'' of
                   JUndefined \<Rightarrow> Some 200 | JNum n \<Rightarrow> Some n | _ \<Rightarrow> None) of
             None \<Rightarrow> Inl (ErrorInst (zodError c d))
           | Some st \<Rightarrow>
               (case (case obj_get kvs ''skipped'' of
                        JUndefined \<Rightarrow> Some False | JBool b \<Rightarrow> Some b | _ \<Rightarrow> None) of
                  None \<Rightarrow> Inl (ErrorInst (zodError c d))
                | Some sk \<Rightarrow>
                    (case (case obj_get kvs ''error'' of
                             JUndefined \<Rightarrow> Some ''Successfully registered''
                           | JStr s \<Rightarrow> Some s
                           | _ \<Rightarrow> None) of
                       None \<Rightarrow> Inl (ErrorInst (zodError c d))
                     | Some er \<Rightarrow> Inr (st, er, sk))))
      | _ \<Rightarrow> Inl (ErrorInst (zodError c d)))"

text \<open>
  \<open>register\<close> returns \<open>{status, message}\<close>. A failing \<open>fetch\<close> is caught and reported as
  status 500; a body that cannot be read counts as \<open>{}\<close>; a response that does not fit
  the schema makes \<open>parse\<close> throw out of \<open>register\<close>. Console output is not modelled.
\<close>

definition register_fn ::
  "('fn, 'url) externals \<Rightarrow> ('fn, 'url) InngestCommHandler \<Rightarrow> 'url \<Rightarrow> string option
     \<Rightarrow> thrown + (int \<times> string)" where
  "register_fn c h u devServerHost =
     (let b = registerBody c h u in
      case (if \<not> isProd h
            then (case devServerAvailable c devServerHost of
                    Inl err \<Rightarrow> Inl err
                  | Inr hasDevServer \<Rightarrow>
                      if hasDevServer then devServerUrl c devServerHost ''/fn/register''
                      else Inr (inngestRegisterUrl h))
            else Inr (inngestRegisterUrl h)) of
        Inl err \<Rightarrow> Inl err
      | Inr registerURL \<Rightarrow>
          (case fetch c (url_href c registerURL)
                  \<lparr>fetch_method = ''POST'', fetch_body = JSON_stringify (JObj b),
                   fetch_headers = AList.update ''Authorization''
                      (''Bearer '' @ hashedSigningKey c h) (handler_headers c h),
                   redirect = ''follow''\<rparr> of
             Inl err \<Rightarrow>
               Inr (500, ''Failed to register'' @
                      (case err of ErrorInst e \<Rightarrow> ''; '' @ err_message e | Plain _ \<Rightarrow> []))
           | Inr res \<Rightarrow>
               (let d = (case res_json res of Inl _ \<Rightarrow> JObj [] | Inr v \<Rightarrow> v) in
                case registerResSchema_parse c d of
                  Inl err \<Rightarrow> Inl err
                | Inr (st, er, sk) \<Rightarrow> Inr (st, er))))"

subsection \<open>The dispatcher\<close>

definition json_headers :: "(string \<times> string) list \<Rightarrow> (string \<times> string) list" where
  "json_headers hs = AList.update ''Content-Type'' ''application/json'' hs"

text \<open>The \<open>run\<close> branch, after the key has been adopted.\<close>

definition handleAction_run ::
  "('fn, 'url) externals \<Rightarrow> ('fn, 'url) InngestCommHandler \<Rightarrow> (string \<times> string) list
     \<Rightarrow> 'url run_action \<Rightarrow> ActionResponse" where
  "handleAction_run c h hs runRes =
     (let stepRes = runStep c h (fnId runRes) ''step'' (data runRes) in
      if step_status stepRes = 500
      then \<lparr>status = 500,
            headers = json_headers hs,
            body = Some (if truthy_str (step_error stepRes) then the (step_error stepRes)
                         else [])\<rparr>
      else \<lparr>status = step_status stepRes,
            headers = json_headers hs,
            body = JSON_stringify (step_body stepRes)\<rparr>)"

text \<open>The \<open>view\<close> branch. It reads \<open>this._isProd\<close>, the field of the handler.\<close>

definition handleAction_view ::
  "('fn, 'url) externals \<Rightarrow> ('fn, 'url) InngestCommHandler \<Rightarrow> (string \<times> string) list
     \<Rightarrow> 'url view_action \<Rightarrow> thrown + ActionResponse" where
  "handleAction_view c h hs viewRes =
     (let showLanding = shouldShowLandingPage c h (env viewRes (envKeys_LandingPage c)) in
      if isProd h \<or> \<not> showLanding
      then Inr \<lparr>status = 405, headers = hs, body = Some []\<rparr>
      else if isIntrospection viewRes
      then (case reqUrl c h (url viewRes) of
              Inl err \<Rightarrow> Inl err
            | Inr u \<Rightarrow>
                (case devServerUrl c (env viewRes (envKeys_DevServerUrl c)) [] of
                   Inl err \<Rightarrow> Inl err
                 | Inr dev \<Rightarrow>
                     (let introspection =
                        AList.update ''hasSigningKey'' (JBool (truthy_str (signingKey h)))
                          (AList.update ''devServerURL'' (JStr (url_href c dev))
                             (registerBody c h u))
                      in Inr \<lparr>status = 200,
                              headers = json_headers hs,
                              body = JSON_stringify (JObj introspection)\<rparr>)))
      else Inr \<lparr>status = 200,
                headers = AList.update ''Content-Type'' ''text/html; charset=utf-8'' hs,
                body = Some (landing c)\<rparr>)"

text \<open>The \<open>register\<close> branch.\<close>

definition handleAction_register ::
  "('fn, 'url) externals \<Rightarrow> ('fn, 'url) InngestCommHandler \<Rightarrow> (string \<times> string) list
     \<Rightarrow> 'url req_ctx \<Rightarrow> thrown + ActionResponse" where
  "handleAction_register c h hs registerRes =
     (case reqUrl c h (url registerRes) of
        Inl err \<Rightarrow> Inl err
      | Inr u \<Rightarrow>
          (case register_fn c h u (env registerRes (envKeys_DevServerUrl c)) of
             Inl err \<Rightarrow> Inl err
           | Inr (st, message) \<Rightarrow>
               Inr \<lparr>status = st,
                    headers = json_headers hs,
                    body = JSON_stringify (JObj [(''message'', JStr message)])\<rparr>))"

text \<open>
  The \<open>try\<close> block of \<open>handleAction\<close>. The callbacks are asked in the order \<open>run\<close>,
  \<open>view\<close>, \<open>register\<close>, each only when the one before returned \<open>undefined\<close>. The result
  is the handler as the block leaves it (an adopted key stays adopted when a later step
  throws) and the outcome: \<open>Inl\<close> what was thrown, by a callback or by the handler's own
  code, \<open>Inr (Some r)\<close> a returned response, \<open>Inr None\<close> when the block falls through.
\<close>

definition handleAction_try ::
  "('fn, 'url) externals \<Rightarrow> ('fn, 'url) InngestCommHandler \<Rightarrow> (string \<times> string) list
     \<Rightarrow> 'url actions
     \<Rightarrow> ('fn, 'url) InngestCommHandler \<times> (callback_throw + ActionResponse option)" where
  "handleAction_try c h hs acts =
     (case run acts of
        Inl err \<Rightarrow> (h, Inl err)
      | Inr (Some runRes) \<Rightarrow>
          (let h' = upsertSigningKeyFromEnv c h (env runRes)
           in (h', Inr (Some (handleAction_run c h' hs runRes))))
      | Inr None \<Rightarrow>
          (case view acts of
             Inl err \<Rightarrow> (h, Inl err)
           | Inr (Some viewRes) \<Rightarrow>
               (let h' = upsertSigningKeyFromEnv c h (env viewRes)
                in (h', map_sum Throw Some (handleAction_view c h' hs viewRes)))
           | Inr None \<Rightarrow>
               (case register acts of
                  Inl err \<Rightarrow> (h, Inl err)
                | Inr (Some registerRes) \<Rightarrow>
                    (let h' = upsertSigningKeyFromEnv c h (env registerRes)
                     in (h', map_sum Throw Some (handleAction_register c h' hs registerRes)))
                | Inr None \<Rightarrow> (h, Inr None))))"

text \<open>
  \<open>JSON.stringify(err)\<close> in the \<open>catch\<close> block: it returns a string or \<open>undefined\<close>, or
  throws a \<open>TypeError\<close> on a value it rejects.
\<close>

fun JSON_stringify_thrown ::
  "('fn, 'url) externals \<Rightarrow> callback_throw \<Rightarrow> thrown + string option" where
  "JSON_stringify_thrown c (Throw v) = Inr (JSON_stringify_value v)"
| "JSON_stringify_thrown c ThrowUnserialisable = Inl (ErrorInst (stringifyError c))"

text \<open>
  \<open>handleAction\<close>: what the call returns, and the handler after the call. \<open>Inr\<close> is
  the response; \<open>Inl\<close> is what the call throws, which happens when the
  \<open>JSON.stringify\<close> of the \<open>catch\<close> block throws, since nothing guards it.
\<close>

definition handleAction ::
  "('fn, 'url) externals \<Rightarrow> ('fn, 'url) InngestCommHandler \<Rightarrow> 'url actions
     \<Rightarrow> (thrown + ActionResponse) \<times> ('fn, 'url) InngestCommHandler" where
  "handleAction c h acts =
     (let hs = [(''x-inngest-sdk'', concat (sdkHeader c h))] in
      case handleAction_try c h hs acts of
        (h', Inl err) \<Rightarrow>
          (case JSON_stringify_thrown c err of
             Inl e \<Rightarrow> (Inl e, h')
           | Inr b \<Rightarrow> (Inr \<lparr>status = 500, headers = json_headers hs, body = b\<rparr>, h'))
      | (h', Inr (Some res)) \<Rightarrow> (Inr res, h')
      | (h', Inr None) \<Rightarrow> (Inr \<lparr>status = 405, headers = hs, body = Some []\<rparr>, h'))"

text \<open>
  A sequence of requests served by one instance, each in its own surroundings: what each
  call returned or threw, and the handler at the end.
\<close>

fun handleActions ::
  "('fn, 'url) InngestCommHandler \<Rightarrow> (('fn, 'url) externals \<times> 'url actions) list
     \<Rightarrow> (thrown + ActionResponse) list \<times> ('fn, 'url) InngestCommHandler" where
  "handleActions h [] = ([], h)"
| "handleActions h ((c, acts) # rest) =
     (case handleAction c h acts of
        (res, h') \<Rightarrow> (case handleActions h' rest of (rs, h'') \<Rightarrow> (res # rs, h'')))"

section \<open>The Deno adapter (deno/fresh.ts)\<close>

text \<open>
  The adapter overrides \<open>createHandler\<close>. Two self-contained parts of it are modelled:
  the prologue that adopts the key and sets \<open>_isProd\<close> from the environment, and the
  \<open>POST\<close> branch from the call of \<open>runStep\<close> on. A \<open>Response\<close> is written as an
  \<open>ActionResponse\<close>.
\<close>

definition fresh_prologue ::
  "('fn, 'url) externals \<Rightarrow> ('fn, 'url) InngestCommHandler \<Rightarrow> (string \<rightharpoonup> string)
     \<Rightarrow> ('fn, 'url) InngestCommHandler" where
  "fresh_prologue c h e =
     (let h' = (if \<not> truthy_str (signingKey h) \<and> truthy_str (e (envKeys_SigningKey c))
                then h\<lparr>signingKey := e (envKeys_SigningKey c)\<rparr>
                else h)
      in h'\<lparr>isProd := (e ''VERCEL_ENV'' = Some ''production''
                       \<or> e ''CONTEXT'' = Some ''production''
                       \<or> e ''ENVIRONMENT'' = Some ''production'')\<rparr>)"

definition fresh_POST ::
  "('fn, 'url) externals \<Rightarrow> ('fn, 'url) InngestCommHandler \<Rightarrow> string \<Rightarrow> string \<Rightarrow> json
     \<Rightarrow> ActionResponse" where
  "fresh_POST c h fnId' stepId d =
     (let hs = [(''x-inngest-sdk'', concat (sdkHeader c h))];
          stepRes = runStep c h fnId' stepId d
      in if step_status stepRes = 500
         then \<lparr>status = step_status stepRes, headers = hs,
               body = JSON_stringify
                        (case step_error stepRes of None \<Rightarrow> JUndefined | Some s \<Rightarrow> JStr s)\<rparr>
         else \<lparr>status = step_status stepRes, headers = hs,
               body = JSON_stringify (step_body stepRes)\<rparr>)"

section \<open>Statements of the specification\<close>

text \<open>The payload of a run action carries an \<open>event\<close> object.\<close>

definition has_event_object :: "json \<Rightarrow> bool" where
  "has_event_object d =
     (case d of
        JObj kvs \<Rightarrow> (case obj_get kvs ''event'' of JObj ev \<Rightarrow> True | _ \<Rightarrow> False)
      | _ \<Rightarrow> False)"

text \<open>
  The content hash as the specification words it: the digest of the JSON form of a
  registration body with its \<open>hash\<close> field taken out.
\<close>

definition spec_content_hash :: "('fn, 'url) externals \<Rightarrow> (string \<times> json) list \<Rightarrow> string" where
  "spec_content_hash c b = sha256_hex c (the (JSON_stringify (JObj (AList.delete ''hash'' b))))"

section \<open>A concrete instance\<close>

text \<open>
  Collaborators for the worked examples: functions are named by strings, a URL is its
  \<open>href\<close>, the digest is a stand-in, no stack is captured, the network is down, and the
  engine completes every run with \<open>{ok: true}\<close>.
\<close>

definition example_error :: "string \<Rightarrow> js_error" where
  "example_error msg =
     \<lparr>err_name = ''Error'', err_message = msg, err_stack = None, err_props = []\<rparr>"

definition example_externals :: "(string, string) externals" where
  "example_externals =
     \<lparr>version = ''1.4.0'',
      landing = ''<html></html>'',
      envKeys_SigningKey = ''INNGEST_SIGNING_KEY'',
      envKeys_LandingPage = ''INNGEST_LANDING_PAGE'',
      envKeys_DevServerUrl = ''INNGEST_DEVSERVER_URL'',
      queryKeys_Introspect = ''introspect'',
      strBoolean = (\<lambda>s. None),
      devServerUrl = (\<lambda>host path. Inr (''http://127.0.0.1:8288'' @ path)),
      devServerAvailable = (\<lambda>host. Inr False),
      fetch = (\<lambda>u i. Inl (ErrorInst (example_error ''network down''))),
      sha256_hex = (\<lambda>s. ''digest-of-'' @ digits_of (length s) @ ''-chars''),
      sha256_hex_of_hex = (\<lambda>s. ''digest-of-'' @ digits_of (length s) @ ''-digits''),
      fn_id = (\<lambda>fn app. app @ ''-'' @ fn),
      getConfig = (\<lambda>fn u app. JObj [(''id'', JStr (app @ ''-'' @ fn))]),
      runFn = (\<lambda>fn ev st. Inr (False, JObj [(''ok'', JBool True)])),
      url_new = (\<lambda>s base. Inr s),
      url_href = (\<lambda>u. u),
      url_pathname = (\<lambda>u. u),
      url_search = (\<lambda>u. []),
      url_set_pathname = (\<lambda>u p. p),
      url_delete_param = (\<lambda>u k. u),
      error_stack = (\<lambda>msg. None),
      zodError = (\<lambda>d. example_error ''invalid input''),
      notCallable = (\<lambda>k. example_error ''fn.runFn is not a function''),
      stringifyError = example_error ''Converting circular structure to JSON''\<rparr>"

definition example_handler :: "(string, string) InngestCommHandler" where
  "example_handler =
     \<lparr>name = ''app'', frameworkName = ''express'', signingKey = None, isProd = False,
      showLandingPage = None, serveHost = None, servePath = None,
      fns = [(''app-hello'', ''hello'')],
      inngestRegisterUrl = ''https://api.inngest.com/fn/register''\<rparr>"

definition example_ctx :: "string req_ctx" where
  "example_ctx = \<lparr>env = Map.empty, url = ''https://example.com/api/inngest'',
                  isProduction = False\<rparr>"

text \<open>
  A stand-in for \<open>cjsSerializeError\<close>: an \<open>Error\<close> gives \<open>name\<close>, \<open>message\<close>, \<open>stack\<close>
  and its own properties, an object gives its properties, anything else makes it throw.
\<close>

definition example_cjs :: "js_value \<Rightarrow> thrown + (string \<times> json) list" where
  "example_cjs v =
     (case v of
        ErrorInst e \<Rightarrow>
          Inr ([(''name'', JStr (err_name e)), (''message'', JStr (err_message e)),
                (''stack'', JStr (case err_stack e of None \<Rightarrow> [] | Some s \<Rightarrow> s))]
               @ err_props e)
      | Plain (JObj kvs) \<Rightarrow> Inr kvs
      | Plain _ \<Rightarrow> Inl (ErrorInst (example_error ''not an object'')))"

text \<open>
  Requests for the examples: a run of a named function on a payload, a run whose
  environment offers a signing key, a view action of a production request that asks for
  introspection; and two variations of the collaborators, one whose registration endpoint
  replies with a \<open>status\<close> that is no number, one whose engine reports a pending
  operation, one whose engine throws.
\<close>

definition example_run :: "string \<Rightarrow> json \<Rightarrow> string run_action" where
  "example_run f d =
     \<lparr>env = Map.empty, url = ''https://example.com/api/inngest'', isProduction = False,
      fnId = f, data = d\<rparr>"

definition example_run_env :: "string \<Rightarrow> string run_action" where
  "example_run_env k =
     \<lparr>env = [''INNGEST_SIGNING_KEY'' \<mapsto> k], url = ''https://example.com/api/inngest'',
      isProduction = False, fnId = ''app-hello'', data = JObj [(''event'', JObj [])]\<rparr>"

definition example_view_production :: "string view_action" where
  "example_view_production =
     \<lparr>env = Map.empty, url = ''https://example.com/api/inngest'', isProduction = True,
      isIntrospection = True\<rparr>"

definition example_externals_bad_reply :: "(string, string) externals" where
  "example_externals_bad_reply =
     example_externals\<lparr>fetch := (\<lambda>u i. Inr \<lparr>res_status = 200, res_statusText = ''OK'',
        res_json = Inr (JObj [(''status'', JStr ''created'')])\<rparr>)\<rparr>"

definition example_externals_pending :: "(string, string) externals" where
  "example_externals_pending =
     example_externals\<lparr>runFn := (\<lambda>fn ev st. Inr (True, JObj [(''op'', JStr ''wait'')]))\<rparr>"



section \<open>Facts about the model\<close>

lemmas example_defs =
  example_externals_def example_handler_def example_error_def example_run_def
  example_run_env_def example_view_production_def example_ctx_def

lemmas eval_defs =
  handleAction_def handleAction_try_def handleAction_run_def handleAction_view_def
  handleAction_register_def runStep_def runStep_try_def fns_read_def parse_run_payload_def
  obj_get_def upsertSigningKeyFromEnv_def sdkHeader_def json_headers_def quote_json_def
  quote_char_def Let_def new_Error_def stack_or_message_def Object_prototype_keys_def
  shouldShowLandingPage_def reqUrl_def registerBody_def configs_def register_fn_def
  registerResSchema_parse_def handler_headers_def hashedSigningKey_def
  Object_values_def is_array_index_def is_digit_def

lemma upsert_fields [simp]:
  "fns (upsertSigningKeyFromEnv c h e) = fns h"
  "frameworkName (upsertSigningKeyFromEnv c h e) = frameworkName h"
  "isProd (upsertSigningKeyFromEnv c h e) = isProd h"
  "inngestRegisterUrl (upsertSigningKeyFromEnv c h e) = inngestRegisterUrl h"
  "serveHost (upsertSigningKeyFromEnv c h e) = serveHost h"
  "servePath (upsertSigningKeyFromEnv c h e) = servePath h"
  by (simp_all add: upsertSigningKeyFromEnv_def)

lemma upsert_keeps_key:
  "truthy_str (signingKey h) \<Longrightarrow> upsertSigningKeyFromEnv c h e = h"
  by (simp add: upsertSigningKeyFromEnv_def)

lemma runStep_try_upsert [simp]:
  "runStep_try c (upsertSigningKeyFromEnv c h e) f s d = runStep_try c h f s d"
  by (simp add: runStep_try_def)

lemma runStep_upsert [simp]:
  "runStep c (upsertSigningKeyFromEnv c h e) f s d = runStep c h f s d"
  by (simp add: runStep_def)

lemma sdkHeader_upsert [simp]:
  "sdkHeader c (upsertSigningKeyFromEnv c h e) = sdkHeader c h"
  by (simp add: sdkHeader_def)

lemma reqUrl_upsert [simp]:
  "reqUrl c (upsertSigningKeyFromEnv c h e) u = reqUrl c h u"
  by (simp add: reqUrl_def)

lemma handleAction_try_handler:
  "fst (handleAction_try c h hs acts) = h
   \<or> (\<exists>e. fst (handleAction_try c h hs acts) = upsertSigningKeyFromEnv c h e)"
  by (auto simp: handleAction_try_def Let_def split: sum.splits option.splits)

lemma handleAction_snd:
  "snd (handleAction c h acts) = fst (handleAction_try c h [(''x-inngest-sdk'', concat (sdkHeader c h))] acts)"
  by (auto simp: handleAction_def Let_def split: prod.splits sum.splits option.splits)

lemma handleAction_fst:
  "fst (handleAction c h acts) =
     (let hs = [(''x-inngest-sdk'', concat (sdkHeader c h))] in
      case snd (handleAction_try c h hs acts) of
        Inl err \<Rightarrow>
          (case JSON_stringify_thrown c err of
             Inl e \<Rightarrow> Inl e
           | Inr b \<Rightarrow> Inr \<lparr>status = 500, headers = json_headers hs, body = b\<rparr>)
      | Inr (Some res) \<Rightarrow> Inr res
      | Inr None \<Rightarrow> Inr \<lparr>status = 405, headers = hs, body = Some []\<rparr>)"
  by (auto simp: handleAction_def Let_def split: prod.splits sum.splits option.splits)

lemma handleAction_keeps_key:
  assumes "truthy_str (signingKey h)"
  shows "snd (handleAction c h acts) = h"
  using handleAction_try_handler [of c h "[(''x-inngest-sdk'', concat (sdkHeader c h))]" acts] assms
  by (auto simp: handleAction_snd upsert_keeps_key)

lemma handleActions_keeps_key:
  "truthy_str (signingKey h) \<Longrightarrow> snd (handleActions h reqs) = h"
proof (induction reqs arbitrary: h)
  case Nil
  then show ?case by simp
next
  case (Cons rq reqs)
  obtain c acts where rq: "rq = (c, acts)" by (cases rq)
  have "snd (handleAction c h acts) = h" using Cons.prems by (rule handleAction_keeps_key)
  then show ?case using Cons.IH [OF Cons.prems] rq
    by (auto split: prod.splits)
qed

lemma handleActions_Cons_snd:
  "snd (handleActions h ((c, acts) # rest)) = snd (handleActions (snd (handleAction c h acts)) rest)"
  by (simp split: prod.splits)

lemma handleActions_append:
  "snd (handleActions h (xs @ ys)) = snd (handleActions (snd (handleActions h xs)) ys)"
proof (induction xs arbitrary: h)
  case Nil
  then show ?case by simp
next
  case (Cons rq xs)
  obtain c acts where rq: "rq = (c, acts)" by (cases rq)
  have "snd (handleActions h ((c, acts) # (xs @ ys)))
          = snd (handleActions (snd (handleAction c h acts)) (xs @ ys))"
    by (rule handleActions_Cons_snd)
  also have "\<dots> = snd (handleActions (snd (handleActions (snd (handleAction c h acts)) xs)) ys)"
    by (rule Cons.IH)
  also have "snd (handleActions (snd (handleAction c h acts)) xs) = snd (handleActions h ((c, acts) # xs))"
    by (rule handleActions_Cons_snd [symmetric])
  finally show ?case using rq by simp
qed

lemma new_handler_key:
  "new_InngestCommHandler c fw nm fl opts = Inr h \<Longrightarrow> signingKey h = opt_signingKey opts"
  by (auto simp: new_InngestCommHandler_def split: sum.splits)

lemma sdk_key_json_headers [simp]:
  "map_of (json_headers hs) ''x-inngest-sdk'' = map_of hs ''x-inngest-sdk''"
  by (simp add: json_headers_def update_conv')




lemma map_sum_Some_Inr [simp]: "(map_sum Throw Some x = Inr (Some res)) = (x = Inr res)"
  by (cases x) auto

lemma map_sum_Throw_Inl [simp]: "(map_sum Throw Some x = Inl (Throw e)) = (x = Inl e)"
  by (cases x) auto

lemma map_sum_Throw_unserialisable [simp]: "map_sum Throw Some x \<noteq> Inl ThrowUnserialisable"
  by (cases x) auto

lemma map_sum_Throw_None [simp]: "map_sum Throw Some x \<noteq> Inr None"
  by (cases x) auto









lemma fns_read_Own: "map_of fs k = Some fn \<Longrightarrow> fns_read fs k = Own fn"
  by (simp add: fns_read_def)

lemma runStep_Inr: "runStep_try c h f s d = Inr res \<Longrightarrow> runStep c h f s d = res"
  by (simp add: runStep_def)

lemma runStep_Inl:
  "runStep_try c h f s d = Inl err \<Longrightarrow>
     runStep c h f s d =
       \<lparr>step_status = 500, step_body = JUndefined,
        step_error = Some (case err of
            ErrorInst e \<Rightarrow> stack_or_message e
          | Plain v \<Rightarrow> ''Unknown error: '' @
              (case JSON_stringify v of None \<Rightarrow> ''undefined'' | Some t \<Rightarrow> t))\<rparr>"
  by (simp add: runStep_def split: js_value.splits)

lemma handleAction_run_acts:
  "run acts = Inr (Some r) \<Longrightarrow>
     fst (handleAction c h acts) =
       Inr (handleAction_run c (upsertSigningKeyFromEnv c h (env r))
              [(''x-inngest-sdk'', concat (sdkHeader c h))] r)"
  by (simp add: handleAction_fst handleAction_try_def Let_def)

lemma parse_without_event:
  "\<not> has_event_object d \<Longrightarrow> \<exists>e. parse_run_payload c d = Inl e"
  by (auto simp: has_event_object_def parse_run_payload_def split: json.splits)

lemma runStep_try_without_event:
  assumes "\<not> has_event_object d"
  shows "\<exists>e. runStep_try c h f s d = Inl e"
proof -
  from assms obtain e where "parse_run_payload c d = Inl e"
    using parse_without_event by blast
  then show ?thesis by (simp add: runStep_try_def split: prop_read.splits)
qed

lemma run_fault_status:
  assumes "run acts = Inr (Some r)"
    and "runStep_try c h (fnId r) ''step'' (data r) = Inl err"
  shows "fst (handleAction c h acts) =
           Inr \<lparr>status = 500,
            headers = [(''x-inngest-sdk'', concat (sdkHeader c h)),
                       (''Content-Type'', ''application/json'')],
            body = Some (case err of
                ErrorInst e \<Rightarrow> stack_or_message e
              | Plain v \<Rightarrow> ''Unknown error: '' @
                  (case JSON_stringify v of None \<Rightarrow> ''undefined'' | Some t \<Rightarrow> t))\<rparr>"
  using assms(1) runStep_Inl [OF assms(2)]
  by (simp add: handleAction_run_acts handleAction_run_def json_headers_def)


text \<open>An id that is an array index is listed before one that is not.\<close>

lemma Object_values_index_first: "Object_values [(''b'', x), (''1'', y), (''a'', z)] = [y, x, z]"
  by (simp add: Object_values_def is_array_index_def is_digit_def)

lemma Object_values_no_index:
  "\<forall>p \<in> set kvs. \<not> is_array_index (fst p) \<Longrightarrow> Object_values kvs = map snd kvs"
  by (simp add: Object_values_def filter_empty_conv [THEN iffD2] filter_id_conv [THEN iffD2])

section \<open>The dispatcher's responses\<close>




section \<open>Run actions\<close>

text \<open>
  Claim C2. For a run action that names a function of the handler and carries a payload
  with an \<open>event\<close> object that the schema accepts (the engine is called on no other
  payload), when the engine returns \<open>[isOp, b]\<close> the response has status 206 if \<open>isOp\<close>
  is true and status 200 if it is false, and its body is \<open>JSON.stringify(b)\<close>.
\<close>

theorem run_engine_result:
  assumes "run acts = Inr (Some r)"
    and "map_of (fns h) (fnId r) = Some fn"
    and "parse_run_payload c (data r) = Inr (ev, st)"
    and "runFn c fn (JObj [(''event'', ev)]) (steps_or_empty st) = Inr (isOp, b)"
  shows "fst (handleAction c h acts) =
           Inr \<lparr>status = (if isOp then 206 else 200),
            headers = [(''x-inngest-sdk'', concat (sdkHeader c h)),
                       (''Content-Type'', ''application/json'')],
            body = JSON_stringify b\<rparr>"
proof -
  have "runStep_try c h (fnId r) ''step'' (data r) =
          Inr \<lparr>step_status = (if isOp then 206 else 200), step_body = b, step_error = None\<rparr>"
    using assms(2-4) by (simp add: runStep_try_def fns_read_Own)
  then have "runStep c h (fnId r) ''step'' (data r) =
          \<lparr>step_status = (if isOp then 206 else 200), step_body = b, step_error = None\<rparr>"
    by (rule runStep_Inr)
  then show ?thesis using assms(1)
    by (simp add: handleAction_run_acts handleAction_run_def json_headers_def)
qed

text \<open>
  The two runs of the specification: the engine returns \<open>[false, {ok: true}]\<close> on
  \<open>{event: {}, steps: {}}\<close>, and \<open>[true, {op: "wait"}]\<close> on \<open>{event: {}}\<close>.
\<close>

theorem run_engine_result_witness:
  "run (actions_of (ActionRun (example_run ''app-hello'' (JObj [(''event'', JObj []), (''steps'', JObj [])]))))
     = Inr (Some (example_run ''app-hello'' (JObj [(''event'', JObj []), (''steps'', JObj [])])))
   \<and> map_of (fns example_handler) ''app-hello'' = Some ''hello''
   \<and> parse_run_payload example_externals (JObj [(''event'', JObj []), (''steps'', JObj [])])
       = Inr (JObj [], JObj [])
   \<and> runFn example_externals ''hello'' (JObj [(''event'', JObj [])]) (JObj [])
       = Inr (False, JObj [(''ok'', JBool True)])
   \<and> fst (handleAction example_externals example_handler
        (actions_of (ActionRun (example_run ''app-hello''
           (JObj [(''event'', JObj []), (''steps'', JObj [])])))))
       = Inr \<lparr>status = 200,
          headers = [(''x-inngest-sdk'', ''inngest-js:v1.4.0 (express)''),
                     (''Content-Type'', ''application/json'')],
          body = Some (''{'' @ [CHR 0x22] @ ''ok'' @ [CHR 0x22] @ '':true}'')\<rparr>
   \<and> parse_run_payload example_externals_pending (JObj [(''event'', JObj [])])
       = Inr (JObj [], JUndefined)
   \<and> runFn example_externals_pending ''hello'' (JObj [(''event'', JObj [])]) (JObj [])
       = Inr (True, JObj [(''op'', JStr ''wait'')])
   \<and> fst (handleAction example_externals_pending example_handler
        (actions_of (ActionRun (example_run ''app-hello'' (JObj [(''event'', JObj [])])))))
       = Inr \<lparr>status = 206,
          headers = [(''x-inngest-sdk'', ''inngest-js:v1.4.0 (express)''),
                     (''Content-Type'', ''application/json'')],
          body = Some (''{'' @ [CHR 0x22] @ ''op'' @ [CHR 0x22] @ '':'' @ [CHR 0x22] @ ''wait''
                       @ [CHR 0x22] @ ''}'')\<rparr>"
proof -
  let ?d = "JObj [(''event'', JObj []), (''steps'', JObj [])]"
  let ?r = "example_run ''app-hello'' ?d"
  have h1: "run (actions_of (ActionRun ?r)) = Inr (Some ?r)" by simp
  have h2: "map_of (fns example_handler) (fnId ?r) = Some ''hello''"
    by (simp add: example_defs)
  have h3: "parse_run_payload example_externals (data ?r) = Inr (JObj [], JObj [])"
    by (simp add: example_defs parse_run_payload_def obj_get_def)
  have h4: "runFn example_externals ''hello'' (JObj [(''event'', JObj [])])
              (steps_or_empty (JObj [])) = Inr (False, JObj [(''ok'', JBool True)])"
    by (simp add: example_defs)
  let ?d' = "JObj [(''event'', JObj [])]"
  let ?r' = "example_run ''app-hello'' ?d'"
  have g1: "run (actions_of (ActionRun ?r')) = Inr (Some ?r')" by simp
  have g2: "map_of (fns example_handler) (fnId ?r') = Some ''hello''"
    by (simp add: example_defs)
  have g3: "parse_run_payload example_externals_pending (data ?r') = Inr (JObj [], JUndefined)"
    by (simp add: example_defs parse_run_payload_def obj_get_def)
  have g4: "runFn example_externals_pending ''hello'' (JObj [(''event'', JObj [])])
              (steps_or_empty JUndefined) = Inr (True, JObj [(''op'', JStr ''wait'')])"
    by (simp add: example_defs example_externals_pending_def)
  from run_engine_result [OF h1 h2 h3 h4] run_engine_result [OF g1 g2 g3 g4]
       h1 h2 h3 h4 g3 g4
  show ?thesis
    by (simp add: example_defs example_externals_pending_def sdkHeader_def quote_json_def
          quote_char_def)
qed

text \<open>
  Claim C3. A run action whose payload has no \<open>event\<close> object is answered with status
  500, never with 200 or 206: the step invoker reports a fault, whether or not the
  function id is known.
\<close>

theorem run_without_event_is_fault:
  assumes "run acts = Inr (Some r)" and "\<not> has_event_object (data r)"
  shows "(\<exists>res. fst (handleAction c h acts) = Inr res
            \<and> status res = 500 \<and> status res \<noteq> 200 \<and> status res \<noteq> 206)
         \<and> (\<exists>err. runStep_try c h (fnId r) ''step'' (data r) = Inl err)"
proof -
  from assms(2) obtain err where e: "runStep_try c h (fnId r) ''step'' (data r) = Inl err"
    using runStep_try_without_event by blast
  from run_fault_status [OF assms(1) e] e show ?thesis by auto
qed

text \<open>
  The payload \<open>{steps: {}}\<close> sent to a known function.
\<close>

theorem run_without_event_is_fault_witness:
  "run (actions_of (ActionRun (example_run ''app-hello'' (JObj [(''steps'', JObj [])]))))
     = Inr (Some (example_run ''app-hello'' (JObj [(''steps'', JObj [])])))
   \<and> \<not> has_event_object (JObj [(''steps'', JObj [])])
   \<and> fst (handleAction example_externals example_handler
        (actions_of (ActionRun (example_run ''app-hello'' (JObj [(''steps'', JObj [])])))))
      = Inr \<lparr>status = 500,
             headers = [(''x-inngest-sdk'', ''inngest-js:v1.4.0 (express)''),
                        (''Content-Type'', ''application/json'')],
             body = Some ''invalid input''\<rparr>"
proof -
  let ?r = "example_run ''app-hello'' (JObj [(''steps'', JObj [])])"
  have h1: "run (actions_of (ActionRun ?r)) = Inr (Some ?r)" by simp
  have h2: "\<not> has_event_object (data ?r)"
    by (simp add: example_defs has_event_object_def obj_get_def)
  have b: "fst (handleAction example_externals example_handler (actions_of (ActionRun ?r)))
      = Inr \<lparr>status = 500,
             headers = [(''x-inngest-sdk'', ''inngest-js:v1.4.0 (express)''),
                        (''Content-Type'', ''application/json'')],
             body = Some ''invalid input''\<rparr>"
    by (simp add: example_defs eval_defs)
  from run_without_event_is_fault [OF h1 h2, of example_externals example_handler] h1 h2 b
  show ?thesis by (simp add: example_defs)
qed

text \<open>
  Claim C5, as amended. When the step invoker reports a fault for a run action (an
  unknown function id, a payload the schema rejects, or an exception of the engine), its
  result is \<open>{status: 500, error}\<close>, the dispatcher answers with status 500, and
  the body is the fault text \<open>error\<close> itself: the stack of
  the error when it has a non-empty one, else its message, and for a thrown value that is
  no \<open>Error\<close> the words \<open>Unknown error: \<close> followed by its JSON. The text is not
  wrapped in an object. The Deno adapter answers 500 with the same text as a JSON string
  literal.
\<close>

theorem run_fault_response:
  assumes "run acts = Inr (Some r)"
    and "runStep_try c h (fnId r) ''step'' (data r) = Inl err"
  shows "runStep c h (fnId r) ''step'' (data r) =
           \<lparr>step_status = 500, step_body = JUndefined,
            step_error = Some (case err of
                ErrorInst e \<Rightarrow> stack_or_message e
              | Plain v \<Rightarrow> ''Unknown error: '' @
                  (case JSON_stringify v of None \<Rightarrow> ''undefined'' | Some t \<Rightarrow> t))\<rparr>
         \<and> fst (handleAction c h acts) =
           Inr \<lparr>status = 500,
            headers = [(''x-inngest-sdk'', concat (sdkHeader c h)),
                       (''Content-Type'', ''application/json'')],
            body = Some (case err of
                ErrorInst e \<Rightarrow> stack_or_message e
              | Plain v \<Rightarrow> ''Unknown error: '' @
                  (case JSON_stringify v of None \<Rightarrow> ''undefined'' | Some t \<Rightarrow> t))\<rparr>
         \<and> fresh_POST c h (fnId r) stepId (data r) =
           \<lparr>status = 500,
            headers = [(''x-inngest-sdk'', concat (sdkHeader c h))],
            body = Some (quote_json (case err of
                ErrorInst e \<Rightarrow> stack_or_message e
              | Plain v \<Rightarrow> ''Unknown error: '' @
                  (case JSON_stringify v of None \<Rightarrow> ''undefined'' | Some t \<Rightarrow> t)))\<rparr>"
proof -
  have "runStep_try c h (fnId r) stepId (data r) = Inl err"
    using assms(2) by (simp add: runStep_try_def)
  then have "fresh_POST c h (fnId r) stepId (data r) =
           \<lparr>status = 500,
            headers = [(''x-inngest-sdk'', concat (sdkHeader c h))],
            body = Some (quote_json (case err of
                ErrorInst e \<Rightarrow> stack_or_message e
              | Plain v \<Rightarrow> ''Unknown error: '' @
                  (case JSON_stringify v of None \<Rightarrow> ''undefined'' | Some t \<Rightarrow> t)))\<rparr>"
    by (simp add: fresh_POST_def runStep_Inl)
  with run_fault_status [OF assms] runStep_Inl [OF assms(2)] show ?thesis by simp
qed

text \<open>
  A run that names a function the handler does not serve.
\<close>

theorem run_fault_response_witness:
  "run (actions_of (ActionRun (example_run ''missing'' (JObj [(''event'', JObj [])]))))
     = Inr (Some (example_run ''missing'' (JObj [(''event'', JObj [])])))
   \<and> runStep_try example_externals example_handler ''missing'' ''step'' (JObj [(''event'', JObj [])])
     = Inl (ErrorInst (example_error
         (''Could not find function with ID '' @ [CHR 0x22] @ ''missing'' @ [CHR 0x22])))
   \<and> fst (handleAction example_externals example_handler
        (actions_of (ActionRun (example_run ''missing'' (JObj [(''event'', JObj [])])))))
     = Inr \<lparr>status = 500,
        headers = [(''x-inngest-sdk'', ''inngest-js:v1.4.0 (express)''),
                   (''Content-Type'', ''application/json'')],
        body = Some (''Could not find function with ID '' @ [CHR 0x22] @ ''missing'' @ [CHR 0x22])\<rparr>"
proof -
  let ?r = "example_run ''missing'' (JObj [(''event'', JObj [])])"
  let ?e = "ErrorInst (example_error
         (''Could not find function with ID '' @ [CHR 0x22] @ ''missing'' @ [CHR 0x22]))"
  have h1: "run (actions_of (ActionRun ?r)) = Inr (Some ?r)" by simp
  have h2: "runStep_try example_externals example_handler (fnId ?r) ''step'' (data ?r) = Inl ?e"
    by (simp add: example_defs runStep_try_def fns_read_def Object_prototype_keys_def new_Error_def)
  from run_fault_response [OF h1 h2, of "''step''"] h1 h2
  show ?thesis
    by (simp add: example_defs sdkHeader_def stack_or_message_def)
qed

text \<open>
  Claim C5 as stated, with the body the JSON object \<open>{error: ...}\<close>, fails on that
  run: the body is the bare message.
\<close>

theorem run_fault_body_counterexample:
  "fst (handleAction example_externals example_handler
        (actions_of (ActionRun (example_run ''missing'' (JObj [(''event'', JObj [])])))))
     = Inr \<lparr>status = 500,
            headers = [(''x-inngest-sdk'', ''inngest-js:v1.4.0 (express)''),
                       (''Content-Type'', ''application/json'')],
            body = Some (''Could not find function with ID '' @ [CHR 0x22] @ ''missing''
                         @ [CHR 0x22])\<rparr>
   \<and> Some (''Could not find function with ID '' @ [CHR 0x22] @ ''missing'' @ [CHR 0x22])
     \<noteq> JSON_stringify (JObj [(''error'',
           JStr (''Could not find function with ID '' @ [CHR 0x22] @ ''missing'' @ [CHR 0x22]))])"
  by (simp add: example_defs eval_defs)

section \<open>View actions\<close>

text \<open>
  Claim C4 says that a view action whose production flag is set is answered with status
  405. The view branch tests the field \<open>_isProd\<close> of the handler, which the
  constructor sets to \<open>false\<close> and which \<open>handleAction\<close> never assigns from the
  action's \<open>isProduction\<close>. On a handler fresh from the constructor, a view action
  with \<open>isProduction\<close> and \<open>isIntrospection\<close> both true is answered with status 200
  and the introspection document.
\<close>

theorem view_production_flag_ignored:
  "new_InngestCommHandler example_externals ''express'' ''app'' [''hello'']
      \<lparr>opt_inngestRegisterUrl = None, opt_landingPage = None, opt_signingKey = None,
       opt_serveHost = None, opt_servePath = None\<rparr> = Inr example_handler
   \<and> isProduction example_view_production
   \<and> isIntrospection example_view_production
   \<and> fst (handleAction example_externals example_handler
        (actions_of (ActionView example_view_production)))
      = Inr \<lparr>status = 200,
             headers = [(''x-inngest-sdk'', ''inngest-js:v1.4.0 (express)''),
                        (''Content-Type'', ''application/json'')],
             body = JSON_stringify (JObj
               [(''url'', JStr ''https://example.com/api/inngest''),
                (''deployType'', JStr ''ping''),
                (''framework'', JStr ''express''),
                (''appName'', JStr ''app''),
                (''functions'', JArr [JObj [(''id'', JStr ''app-hello'')]]),
                (''sdk'', JStr ''js:v1.4.0''),
                (''v'', JStr ''0.1''),
                (''hash'', JStr ''digest-of-160-chars''),
                (''devServerURL'', JStr ''http://127.0.0.1:8288''),
                (''hasSigningKey'', JBool False)])\<rparr>"
  by (simp add: example_defs eval_defs new_InngestCommHandler_def)

text \<open>
  The response to a view action does not depend on its \<open>isProduction\<close>; when the
  handler's own field is set the answer is 405; the Deno adapter sets that field from the
  environment on every request.
\<close>

lemma view_ignores_isProduction:
  "handleAction c h (actions_of (ActionView (v\<lparr>isProduction := b\<rparr>)))
     = handleAction c h (actions_of (ActionView v))"
  by (simp add: handleAction_def handleAction_try_def handleAction_view_def Let_def
        cong: sum.case_cong)

lemma view_isProd_405:
  "isProd h \<Longrightarrow>
     fst (handleAction c h (actions_of (ActionView v))) =
       Inr \<lparr>status = 405, headers = [(''x-inngest-sdk'', concat (sdkHeader c h))], body = Some []\<rparr>"
  by (simp add: handleAction_def handleAction_try_def handleAction_view_def Let_def)

lemma fresh_prologue_isProd:
  "isProd (fresh_prologue c h e) =
     (e ''VERCEL_ENV'' = Some ''production'' \<or> e ''CONTEXT'' = Some ''production''
      \<or> e ''ENVIRONMENT'' = Some ''production'')"
  by (simp add: fresh_prologue_def Let_def)

section \<open>Errors handed to the dispatcher\<close>



section \<open>Error transport: idempotence\<close>

lemma isSerializedError_marked:
  "isSerializedError (Plain (JObj (AList.update SERIALIZED_KEY SERIALIZED_VALUE obj)))"
  by (simp add: update_conv' obj_get_def)

lemma serializeError_result_marked:
  "serializeError cjs v = Inr r \<Longrightarrow> isSerializedError r"
  by (auto simp: serializeError_def update_conv' obj_get_def split: if_splits sum.splits)

text \<open>
  Claim C7. \<open>serializeError\<close> is idempotent: serialising its own result gives that result
  again (and a throw of the package function stays that throw); a value that carries the
  marker \<open>__serialized: true\<close> is returned unchanged; and whether an object counts as
  serialised depends on its marker entry alone, so two objects that agree on the marker
  are treated alike whatever they hold under \<open>name\<close>, \<open>message\<close> or \<open>stack\<close>.
\<close>

theorem serializeError_idempotent:
  "(case serializeError cjs v of Inl err \<Rightarrow> Inl err | Inr r \<Rightarrow> serializeError cjs r)
     = serializeError cjs v
   \<and> (isSerializedError v \<longrightarrow> serializeError cjs v = Inr v)
   \<and> (map_of kvs SERIALIZED_KEY = map_of kvs' SERIALIZED_KEY \<longrightarrow>
        isSerializedError (Plain (JObj kvs)) = isSerializedError (Plain (JObj kvs')))"
proof (intro conjI impI)
  show "(case serializeError cjs v of Inl err \<Rightarrow> Inl err | Inr r \<Rightarrow> serializeError cjs r)
          = serializeError cjs v"
  proof (cases "serializeError cjs v")
    case (Inl err)
    then show ?thesis by simp
  next
    case (Inr r)
    then have "isSerializedError r" by (rule serializeError_result_marked)
    then have "serializeError cjs r = Inr r" by (simp add: serializeError_def)
    with Inr show ?thesis by simp
  qed
next
  assume "isSerializedError v"
  then show "serializeError cjs v = Inr v" by (simp add: serializeError_def)
next
  assume "map_of kvs SERIALIZED_KEY = map_of kvs' SERIALIZED_KEY"
  then show "isSerializedError (Plain (JObj kvs)) = isSerializedError (Plain (JObj kvs'))"
    by (simp add: obj_get_def)
qed

text \<open>
  An \<open>Error\<close> is serialised once and its serialisation is a fixed point; an object that
  holds nothing but the marker is returned as it is; an object with \<open>name\<close>, \<open>message\<close>
  and \<open>stack\<close> but no marker is not taken for a serialised error.
\<close>

theorem serializeError_idempotent_witness:
  "serializeError example_cjs (ErrorInst (example_error ''boom''))
     = Inr (Plain (JObj [(''name'', JStr ''Error''), (''message'', JStr ''boom''),
                         (''stack'', JStr []), (''__serialized'', JBool True)]))
   \<and> serializeError example_cjs
        (Plain (JObj [(''name'', JStr ''Error''), (''message'', JStr ''boom''),
                      (''stack'', JStr []), (''__serialized'', JBool True)]))
     = Inr (Plain (JObj [(''name'', JStr ''Error''), (''message'', JStr ''boom''),
                         (''stack'', JStr []), (''__serialized'', JBool True)]))
   \<and> isSerializedError (Plain (JObj [(''__serialized'', JBool True)]))
   \<and> serializeError example_cjs (Plain (JObj [(''__serialized'', JBool True)]))
     = Inr (Plain (JObj [(''__serialized'', JBool True)]))
   \<and> \<not> isSerializedError (Plain (JObj [(''name'', JStr ''Error''), (''message'', JStr ''boom''),
                         (''stack'', JStr [])]))"
  using serializeError_idempotent [of example_cjs "ErrorInst (example_error ''boom'')"
          "[(''__serialized'', JBool True)]"
          "[(''__serialized'', JBool True), (''name'', JStr ''Error'')]"]
        serializeError_idempotent [of example_cjs
          "Plain (JObj [(''__serialized'', JBool True)])" "[]" "[]"]
  by (simp add: serializeError_def example_cjs_def example_error_def SERIALIZED_KEY_def
        SERIALIZED_VALUE_def obj_get_def)

section \<open>Registration: the content hash\<close>

text \<open>
  Claim C8. The \<open>hash\<close> field of a registration body is the digest of the JSON form of
  the body without that field; computing the digest again after the field has been
  changed to any value gives the same result; and the fields it is computed from are
  \<open>url\<close>, \<open>deployType\<close>, \<open>framework\<close>, \<open>appName\<close>, \<open>functions\<close>, \<open>sdk\<close> and \<open>v\<close>.
\<close>

theorem registerBody_hash_excludes_itself:
  "obj_get (registerBody c h u) ''hash'' = JStr (spec_content_hash c (registerBody c h u))
   \<and> spec_content_hash c (AList.update ''hash'' x (registerBody c h u))
       = spec_content_hash c (registerBody c h u)
   \<and> AList.delete ''hash'' (registerBody c h u) =
        [(''url'', JStr (url_href c u)),
         (''deployType'', JStr ''ping''),
         (''framework'', JStr (frameworkName h)),
         (''appName'', JStr (name h)),
         (''functions'', JArr (configs c h u)),
         (''sdk'', JStr (''js:v'' @ version c)),
         (''v'', JStr ''0.1'')]"
  by (simp add: registerBody_def spec_content_hash_def obj_get_def Let_def sdkHeader_def
        delete_update_same)

text \<open>
  The body of the example handler, and the same body with a tampered \<open>hash\<close>.
\<close>

theorem registerBody_hash_excludes_itself_witness:
  "obj_get (registerBody example_externals example_handler ''https://example.com/api/inngest'')
      ''hash'' = JStr ''digest-of-160-chars''
   \<and> spec_content_hash example_externals
        (AList.update ''hash'' (JStr ''tampered'')
           (registerBody example_externals example_handler ''https://example.com/api/inngest''))
      = ''digest-of-160-chars''"
proof -
  have e: "spec_content_hash example_externals
             (registerBody example_externals example_handler ''https://example.com/api/inngest'')
           = ''digest-of-160-chars''"
    by (simp add: example_defs eval_defs spec_content_hash_def)
  from registerBody_hash_excludes_itself [of example_externals example_handler
         "''https://example.com/api/inngest''" "JStr ''tampered''"] e
  show ?thesis by simp
qed

section \<open>The signing key\<close>

text \<open>
  Claim C9. Adoption changes the key only when no key is set (the field is \<open>undefined\<close>
  or the empty string), and then to the value the environment carries. Once the key is
  set after some requests, it has the same value after any further requests; and a key
  given to the constructor is the key after any sequence of requests.
\<close>

theorem signingKey_first_writer_wins:
  "(signingKey (upsertSigningKeyFromEnv c h e) \<noteq> signingKey h \<longrightarrow>
      \<not> truthy_str (signingKey h)
      \<and> signingKey (upsertSigningKeyFromEnv c h e) = e (envKeys_SigningKey c)
      \<and> truthy_str (e (envKeys_SigningKey c)))
   \<and> (truthy_str (signingKey (snd (handleActions h xs))) \<longrightarrow>
        signingKey (snd (handleActions h (xs @ ys))) = signingKey (snd (handleActions h xs)))
   \<and> (new_InngestCommHandler c0 fw nm fl opts = Inr h \<and> truthy_str (opt_signingKey opts) \<longrightarrow>
        signingKey (snd (handleActions h ys)) = opt_signingKey opts)"
proof -
  have adopt: "signingKey (upsertSigningKeyFromEnv c h e) \<noteq> signingKey h \<longrightarrow>
      \<not> truthy_str (signingKey h)
      \<and> signingKey (upsertSigningKeyFromEnv c h e) = e (envKeys_SigningKey c)
      \<and> truthy_str (e (envKeys_SigningKey c))"
    by (auto simp: upsertSigningKeyFromEnv_def split: if_splits)
  have keep: "truthy_str (signingKey (snd (handleActions h xs))) \<longrightarrow>
      signingKey (snd (handleActions h (xs @ ys))) = signingKey (snd (handleActions h xs))"
    by (simp add: handleActions_append handleActions_keeps_key)
  have constructed: "new_InngestCommHandler c0 fw nm fl opts = Inr h \<and> truthy_str (opt_signingKey opts) \<longrightarrow>
      signingKey (snd (handleActions h ys)) = opt_signingKey opts"
  proof
    assume a: "new_InngestCommHandler c0 fw nm fl opts = Inr h \<and> truthy_str (opt_signingKey opts)"
    then have "signingKey h = opt_signingKey opts" using new_handler_key by blast
    with a show "signingKey (snd (handleActions h ys)) = opt_signingKey opts"
      by (simp add: handleActions_keeps_key)
  qed
  from adopt keep constructed show ?thesis by (intro conjI)
qed

text \<open>
  A handler without a key adopts the key of the first request and keeps it when a second
  request offers another; a handler constructed with a key keeps that one.
\<close>

theorem signingKey_first_writer_wins_witness:
  "signingKey example_handler = None
   \<and> signingKey (snd (handleActions example_handler
        [(example_externals, actions_of (ActionRun (example_run_env ''signkey-test-aa'')))]))
      = Some ''signkey-test-aa''
   \<and> signingKey (snd (handleActions example_handler
        ([(example_externals, actions_of (ActionRun (example_run_env ''signkey-test-aa'')))]
         @ [(example_externals, actions_of (ActionRun (example_run_env ''signkey-test-bb'')))])))
      = Some ''signkey-test-aa''
   \<and> new_InngestCommHandler example_externals ''express'' ''app'' [''hello'']
        \<lparr>opt_inngestRegisterUrl = None, opt_landingPage = None,
         opt_signingKey = Some ''signkey-prod-cc'', opt_serveHost = None, opt_servePath = None\<rparr>
      = Inr (example_handler\<lparr>signingKey := Some ''signkey-prod-cc''\<rparr>)
   \<and> signingKey (snd (handleActions (example_handler\<lparr>signingKey := Some ''signkey-prod-cc''\<rparr>)
        [(example_externals, actions_of (ActionRun (example_run_env ''signkey-test-bb'')))]))
      = Some ''signkey-prod-cc''"
proof -
  let ?xs = "[(example_externals, actions_of (ActionRun (example_run_env ''signkey-test-aa'')))]"
  let ?ys = "[(example_externals, actions_of (ActionRun (example_run_env ''signkey-test-bb'')))]"
  let ?opts = "\<lparr>opt_inngestRegisterUrl = None, opt_landingPage = None,
         opt_signingKey = Some ''signkey-prod-cc'', opt_serveHost = None, opt_servePath = None\<rparr>"
  have k0: "signingKey example_handler = None" by (simp add: example_defs)
  have k1: "signingKey (snd (handleActions example_handler ?xs)) = Some ''signkey-test-aa''"
    by (simp only: handleActions_Cons_snd handleActions.simps(1))
       (simp add: handleAction_snd handleAction_try_def upsertSigningKeyFromEnv_def example_defs
          Let_def)
  have k2: "new_InngestCommHandler example_externals ''express'' ''app'' [''hello''] ?opts
      = Inr (example_handler\<lparr>signingKey := Some ''signkey-prod-cc''\<rparr>)"
    by (simp add: new_InngestCommHandler_def example_defs fns_read_def Object_prototype_keys_def)
  from signingKey_first_writer_wins [where h = example_handler and xs = ?xs and ys = ?ys]
       signingKey_first_writer_wins [where h = "example_handler\<lparr>signingKey := Some ''signkey-prod-cc''\<rparr>"
          and ys = ?ys and ?c0.0 = example_externals and fw = "''express''" and nm = "''app''"
          and fl = "[''hello'']" and opts = ?opts]
       k0 k1 k2
  show ?thesis by simp
qed

text \<open>
  Claim C10. When the environment maps the signing-key variable to the empty string,
  adoption leaves the handler as it is, in the dispatcher and in the Deno adapter alike:
  the test is on the truthiness of the value, so a handler without a key stays without.
\<close>

theorem empty_env_key_not_adopted:
  "e (envKeys_SigningKey c) = Some [] \<longrightarrow>
     upsertSigningKeyFromEnv c h e = h
     \<and> signingKey (fresh_prologue c h e) = signingKey h
     \<and> (run acts = Inr (Some r) \<and> env r = e \<longrightarrow> snd (handleAction c h acts) = h)"
  by (auto simp: upsertSigningKeyFromEnv_def fresh_prologue_def handleAction_snd handleAction_try_def Let_def)

text \<open>
  A run whose environment holds the empty string leaves the key unset; the same run with
  a key in the environment sets it.
\<close>

theorem empty_env_key_not_adopted_witness:
  "[''INNGEST_SIGNING_KEY'' \<mapsto> []] (envKeys_SigningKey example_externals) = Some []
   \<and> upsertSigningKeyFromEnv example_externals example_handler [''INNGEST_SIGNING_KEY'' \<mapsto> []]
       = example_handler
   \<and> signingKey (snd (handleAction example_externals example_handler
        (actions_of (ActionRun (example_run_env []))))) = None
   \<and> signingKey (snd (handleAction example_externals example_handler
        (actions_of (ActionRun (example_run_env ''signkey-test-aa''))))) = Some ''signkey-test-aa''"
proof -
  have h: "[''INNGEST_SIGNING_KEY'' \<mapsto> []] (envKeys_SigningKey example_externals) = Some []"
    by (simp add: example_defs)
  have r: "run (actions_of (ActionRun (example_run_env []))) = Inr (Some (example_run_env []))
           \<and> env (example_run_env []) = [''INNGEST_SIGNING_KEY'' \<mapsto> []]"
    by (simp add: example_defs)
  have a: "signingKey (snd (handleAction example_externals example_handler
        (actions_of (ActionRun (example_run_env ''signkey-test-aa''))))) = Some ''signkey-test-aa''"
    by (simp add: handleAction_snd handleAction_try_def upsertSigningKeyFromEnv_def example_defs
          Let_def)
  from empty_env_key_not_adopted [where c = example_externals and h = example_handler
          and e = "[''INNGEST_SIGNING_KEY'' \<mapsto> []]"
          and acts = "actions_of (ActionRun (example_run_env []))" and r = "example_run_env []"]
       h r a
  show ?thesis by (simp add: example_defs)
qed

end
